theory Spec2Isabelle
  imports Complex_Main "HOL-Library.AList"
begin

section \<open>JavaScript values\<close>

text \<open>
  The client and the tool handlers work on untyped JSON: response bodies, query
  parameters and tool arguments (\<^verbatim>\<open>request.params.arguments as any\<close>). They are
  modelled by one type of JavaScript values. A finite number is abstracted to a rational
  (rounding is not modelled); not-a-number and the two infinities are kept, because
  comparison and truthiness treat them specially. A string is a list of characters, and
  \<^verbatim>\<open>.length\<close> is the length of that list. An object is an association list in
  insertion order, read through \<open>map_of\<close>.
\<close>

datatype number = NaN | NegInf | Fin rat | PosInf

datatype jsval =
    JUndefined
  | JNull
  | JBool bool
  | JNum number
  | JStr string
  | JArr "jsval list"
  | JObj "(string \<times> jsval) list"

text \<open>Truthiness, as \<^verbatim>\<open>!v\<close>, \<^verbatim>\<open>v || d\<close> and \<^verbatim>\<open>if (v)\<close> test it.\<close>

fun truthy :: "jsval \<Rightarrow> bool" where
  "truthy JUndefined = False"
| "truthy JNull = False"
| "truthy (JBool b) = b"
| "truthy (JNum n) = (n \<noteq> NaN \<and> n \<noteq> Fin 0)"
| "truthy (JStr s) = (s \<noteq> [])"
| "truthy (JArr xs) = True"
| "truthy (JObj kvs) = True"

text \<open>
  Reading a property \<^verbatim>\<open>v.k\<close>. On an object it is the stored value, or undefined
  for a missing key; on any other value that is not null or undefined the keys read in
  this program (result, response, flights, ...) are not defined, so the read gives
  undefined. Reading a property of null or undefined throws in JavaScript; every read
  below is guarded by the truthiness of the value read from (the source writes
  \<^verbatim>\<open>!a || !a.b\<close>), so that case is never evaluated.
\<close>

fun js_get :: "jsval \<Rightarrow> string \<Rightarrow> jsval" where
  "js_get (JObj kvs) k = (case map_of kvs k of Some v \<Rightarrow> v | None \<Rightarrow> JUndefined)"
| "js_get _ k = JUndefined"

text \<open>The relational operators on numbers: every comparison with NaN is false.\<close>

fun num_lt :: "number \<Rightarrow> number \<Rightarrow> bool" where
  "num_lt NaN _ = False"
| "num_lt _ NaN = False"
| "num_lt NegInf NegInf = False"
| "num_lt NegInf _ = True"
| "num_lt (Fin a) (Fin b) = (a < b)"
| "num_lt (Fin a) PosInf = True"
| "num_lt (Fin a) NegInf = False"
| "num_lt PosInf _ = False"

text \<open>
  The conversion of a value to a number, where it needs no parsing: undefined is NaN, null
  is 0, true is 1 and false is 0. A string is parsed and an array or an object is first
  converted to a string; these conversions are not modelled.
\<close>

fun to_number :: "jsval \<Rightarrow> number option" where
  "to_number JUndefined = Some NaN"
| "to_number JNull = Some (Fin 0)"
| "to_number (JBool b) = Some (Fin (if b then 1 else 0))"
| "to_number (JNum x) = Some x"
| "to_number (JStr s) = None"
| "to_number (JArr xs) = None"
| "to_number (JObj kvs) = None"

text \<open>
  \<^verbatim>\<open>a < b\<close> and \<^verbatim>\<open>a > b\<close> on values: both operands are converted to
  numbers and compared. The handlers declare the operands as numbers; a missing field is
  undefined. When an operand is a string, an array or an object the comparison is taken to
  be false, which is not always what JavaScript gives.
\<close>

definition js_lt :: "jsval \<Rightarrow> jsval \<Rightarrow> bool" where
  "js_lt a b =
     (case (to_number a, to_number b) of
        (Some x, Some y) \<Rightarrow> num_lt x y
      | _ \<Rightarrow> False)"

definition js_gt :: "jsval \<Rightarrow> jsval \<Rightarrow> bool" where
  "js_gt a b = js_lt b a"

section \<open>Errors\<close>

text \<open>
  Everything thrown is a value: an \<^verbatim>\<open>McpError\<close> with its code and message, or
  any other exception, of which only the message is kept.
\<close>

datatype ErrorCode = InvalidParams | InvalidRequest | InternalError | MethodNotFound

datatype js_error = McpError ErrorCode string | OtherError string

definition MISSING_API_KEY :: string where
  "MISSING_API_KEY = ''Flightradar24 API key is required''"

definition RATE_LIMIT_EXCEEDED :: string where
  "RATE_LIMIT_EXCEEDED = ''Rate limit exceeded for Flightradar24 API''"

definition INVALID_API_KEY :: string where
  "INVALID_API_KEY = ''Invalid Flightradar24 API key''"

definition API_ERROR :: string where
  "API_ERROR = ''Flightradar24 API error''"

definition NETWORK_ERROR :: string where
  "NETWORK_ERROR = ''Network error while connecting to Flightradar24 API''"

section \<open>Endpoints\<close>

definition FLIGHT_DATA :: string where "FLIGHT_DATA = ''/flights''"
definition FLIGHT_INFO :: string where "FLIGHT_INFO = ''/flight/info''"
definition AIRPORT_DATA :: string where "AIRPORT_DATA = ''/airports''"
definition AIRLINE_DATA :: string where "AIRLINE_DATA = ''/airlines''"
definition AIRCRAFT_DATA :: string where "AIRCRAFT_DATA = ''/aircraft''"
definition ZONES :: string where "ZONES = ''/zones''"

section \<open>The client object and its environment\<close>

text \<open>The instance that \<^verbatim>\<open>axios.create\<close> returns: its configuration.\<close>

record AxiosInstance =
  baseURL :: string
  timeout :: nat
  headers :: "(string \<times> string) list"

text \<open>The fields of \<^verbatim>\<open>Flightradar24ApiClient\<close>.\<close>

record client =
  axiosInstance :: AxiosInstance
  apiKey :: string
  baseUrl :: string
  retryDelay :: nat
  maxRetries :: nat

text \<open>One GET as the network sees it, and what the network answers.\<close>

record request =
  req_instance :: AxiosInstance
  req_endpoint :: string
  req_params :: "(string \<times> jsval) list"

datatype http_outcome =
    Response nat jsval
  | NoResponse
  | Throws js_error

text \<open>
  What the program takes from its runtime: the network, a deterministic machine with a
  state of its own that answers each GET; \<^verbatim>\<open>`${v}`\<close>, the conversion of a value to
  a string in a template literal; and the text that \<^verbatim>\<open>`${JSON.stringify(v)}`\<close>
  inserts.
\<close>

record 'n runtime =
  http_get :: "'n \<Rightarrow> request \<Rightarrow> http_outcome \<times> 'n"
  to_string :: "jsval \<Rightarrow> string"
  json_stringify :: "jsval \<Rightarrow> string"

text \<open>
  The state the methods run in: the client object itself (\<^verbatim>\<open>this\<close>), the state of
  the network, every GET issued so far with its answer, and every delay slept so far, in
  milliseconds.
\<close>

record 'n state =
  this :: client
  netst :: 'n
  calls :: "(request \<times> http_outcome) list"
  sleeps :: "nat list"

section \<open>Construction\<close>

text \<open>
  \<^verbatim>\<open>constructor(apiKey: string)\<close>. The argument is an optional string, None for
  undefined: \<^verbatim>\<open>!apiKey\<close> holds for undefined and for the empty string.
\<close>

definition constructor :: "string option \<Rightarrow> js_error + client" where
  "constructor key =
     (case key of
        None \<Rightarrow> Inl (McpError InvalidParams MISSING_API_KEY)
      | Some k \<Rightarrow>
          if k = [] then Inl (McpError InvalidParams MISSING_API_KEY)
          else Inr \<lparr> axiosInstance =
                       \<lparr> baseURL = ''https://api.flightradar24.com/v1'',
                         timeout = 10000,
                         headers = [(''Authorization'', ''Bearer '' @ k),
                                    (''Content-Type'', ''application/json'')] \<rparr>,
                     apiKey = k,
                     baseUrl = ''https://api.flightradar24.com/v1'',
                     retryDelay = 1000,
                     maxRetries = 3 \<rparr>)"

section \<open>Transport and retry\<close>

text \<open>
  \<^verbatim>\<open>axiosInstance.get(endpoint, {params})\<close>: the promise is fulfilled with the
  response for a status from 200 to 299 (the default \<^verbatim>\<open>validateStatus\<close> of axios),
  rejected with an AxiosError that carries the response for any other status, rejected
  with an AxiosError without a response when none arrived, and anything else thrown is
  not an AxiosError. The call and its answer are recorded.
\<close>

record AxiosResponse =
  status :: nat
  data :: jsval

datatype axios_result =
    Fulfilled AxiosResponse
  | AxiosError "AxiosResponse option"
  | NonAxiosError js_error

definition axios_get ::
  "'n runtime \<Rightarrow> AxiosInstance \<Rightarrow> string \<Rightarrow> (string \<times> jsval) list \<Rightarrow> 'n state
     \<Rightarrow> axios_result \<times> 'n state" where
  "axios_get rt inst endpoint ps s =
     (let rq = \<lparr> req_instance = inst, req_endpoint = endpoint, req_params = ps \<rparr>;
          (out, n') = http_get rt (netst s) rq;
          s' = s\<lparr> netst := n', calls := calls s @ [(rq, out)] \<rparr>
      in (case out of
            Response st d \<Rightarrow>
              if 200 \<le> st \<and> st < 300 then Fulfilled \<lparr> status = st, data = d \<rparr>
              else AxiosError (Some \<lparr> status = st, data = d \<rparr>)
          | NoResponse \<Rightarrow> AxiosError None
          | Throws e \<Rightarrow> NonAxiosError e,
          s'))"

text \<open>\<^verbatim>\<open>await new Promise(resolve => setTimeout(resolve, delay))\<close>\<close>

definition setTimeout :: "nat \<Rightarrow> 'n state \<Rightarrow> 'n state" where
  "setTimeout delay s = s\<lparr> sleeps := sleeps s @ [delay] \<rparr>"

text \<open>
  \<^verbatim>\<open>makeRequest(endpoint, params = {}, retryCount = 0)\<close>. The result is the parsed
  body, or the error thrown.
\<close>

function makeRequest ::
  "'n runtime \<Rightarrow> string \<Rightarrow> (string \<times> jsval) list \<Rightarrow> nat \<Rightarrow> 'n state
     \<Rightarrow> (js_error + jsval) \<times> 'n state" where
  "makeRequest rt endpoint ps retryCount s =
     (case axios_get rt (axiosInstance (this s)) endpoint ps s of
        (Fulfilled response, s1) \<Rightarrow> (Inr (data response), s1)
      | (AxiosError response, s1) \<Rightarrow>
          if map_option status response = Some 429 \<and> retryCount < maxRetries (this s1)
          then makeRequest rt endpoint ps (retryCount + 1)
                 (setTimeout (retryDelay (this s1) * 2 ^ retryCount) s1)
          else if map_option status response = Some 401
          then (Inl (McpError InvalidRequest INVALID_API_KEY), s1)
          else (case response of
                  Some r \<Rightarrow>
                    (Inl (McpError InternalError
                           (API_ERROR @ '': '' @ to_string rt (JNum (Fin (of_nat (status r))))
                              @ '' - '' @ json_stringify rt (data r))), s1)
                | None \<Rightarrow> (Inl (McpError InternalError NETWORK_ERROR), s1))
      | (NonAxiosError e, s1) \<Rightarrow> (Inl e, s1))"
  by pat_completeness auto
termination
  by (relation "measure (\<lambda>(rt, endpoint, ps, retryCount, s). maxRetries (this s) - retryCount)")
     (auto simp: axios_get_def setTimeout_def Let_def split: prod.splits)

declare makeRequest.simps [simp del]

section \<open>Domain mapping\<close>

text \<open>
  Each operation returns the value it unwraps from the envelope, or the error thrown.
  An error thrown by \<open>makeRequest\<close> propagates unchanged.
\<close>

definition getFlightData ::
  "'n runtime \<Rightarrow> string \<Rightarrow> 'n state \<Rightarrow> (js_error + jsval) \<times> 'n state" where
  "getFlightData rt flightId s =
     (let endpoint = FLIGHT_INFO @ ''/'' @ flightId in
      case makeRequest rt endpoint [] 0 s of
        (Inl e, s1) \<Rightarrow> (Inl e, s1)
      | (Inr response, s1) \<Rightarrow>
          if \<not> truthy response \<or> \<not> truthy (js_get response ''result'')
          then (Inl (McpError InvalidRequest
                       (''No flight data found for flight ID: '' @ flightId)), s1)
          else (Inr (js_get response ''result''), s1))"

definition searchFlights ::
  "'n runtime \<Rightarrow> (string \<times> jsval) list \<Rightarrow> 'n state \<Rightarrow> (js_error + jsval) \<times> 'n state" where
  "searchFlights rt ps s =
     (let endpoint = FLIGHT_DATA in
      case makeRequest rt endpoint ps 0 s of
        (Inl e, s1) \<Rightarrow> (Inl e, s1)
      | (Inr response, s1) \<Rightarrow>
          if \<not> truthy response \<or> \<not> truthy (js_get response ''result'')
             \<or> \<not> truthy (js_get (js_get response ''result'') ''response'')
             \<or> \<not> truthy (js_get (js_get (js_get response ''result'') ''response'') ''flights'')
          then (Inr (JArr []), s1)
          else (Inr (js_get (js_get (js_get response ''result'') ''response'') ''flights''), s1))"

definition getAirportData ::
  "'n runtime \<Rightarrow> string \<Rightarrow> 'n state \<Rightarrow> (js_error + jsval) \<times> 'n state" where
  "getAirportData rt airportCode s =
     (let isIATA = (length airportCode = 3);
          ps = (if isIATA then [(''iata'', JStr airportCode)] else [(''icao'', JStr airportCode)]);
          endpoint = AIRPORT_DATA in
      case makeRequest rt endpoint ps 0 s of
        (Inl e, s1) \<Rightarrow> (Inl e, s1)
      | (Inr response, s1) \<Rightarrow>
          if \<not> truthy response \<or> \<not> truthy (js_get response ''result'')
             \<or> \<not> truthy (js_get (js_get response ''result'') ''response'')
             \<or> \<not> truthy (js_get (js_get (js_get response ''result'') ''response'') ''airport'')
          then (Inl (McpError InvalidRequest
                       (''No airport data found for airport code: '' @ airportCode)), s1)
          else (Inr (js_get (js_get (js_get response ''result'') ''response'') ''airport''), s1))"

definition searchAirports ::
  "'n runtime \<Rightarrow> (string \<times> jsval) list \<Rightarrow> 'n state \<Rightarrow> (js_error + jsval) \<times> 'n state" where
  "searchAirports rt ps s =
     (let endpoint = AIRPORT_DATA in
      case makeRequest rt endpoint ps 0 s of
        (Inl e, s1) \<Rightarrow> (Inl e, s1)
      | (Inr response, s1) \<Rightarrow>
          if \<not> truthy response \<or> \<not> truthy (js_get response ''result'')
             \<or> \<not> truthy (js_get (js_get response ''result'') ''response'')
             \<or> \<not> truthy (js_get (js_get (js_get response ''result'') ''response'') ''airports'')
          then (Inr (JArr []), s1)
          else (Inr (js_get (js_get (js_get response ''result'') ''response'') ''airports''), s1))"

definition getAirlineData ::
  "'n runtime \<Rightarrow> string \<Rightarrow> 'n state \<Rightarrow> (js_error + jsval) \<times> 'n state" where
  "getAirlineData rt airlineCode s =
     (let isIATA = (length airlineCode = 2);
          ps = (if isIATA then [(''iata'', JStr airlineCode)] else [(''icao'', JStr airlineCode)]);
          endpoint = AIRLINE_DATA in
      case makeRequest rt endpoint ps 0 s of
        (Inl e, s1) \<Rightarrow> (Inl e, s1)
      | (Inr response, s1) \<Rightarrow>
          if \<not> truthy response \<or> \<not> truthy (js_get response ''result'')
             \<or> \<not> truthy (js_get (js_get response ''result'') ''response'')
             \<or> \<not> truthy (js_get (js_get (js_get response ''result'') ''response'') ''airline'')
          then (Inl (McpError InvalidRequest
                       (''No airline data found for airline code: '' @ airlineCode)), s1)
          else (Inr (js_get (js_get (js_get response ''result'') ''response'') ''airline''), s1))"

definition getAircraftData ::
  "'n runtime \<Rightarrow> string \<Rightarrow> 'n state \<Rightarrow> (js_error + jsval) \<times> 'n state" where
  "getAircraftData rt registration s =
     (let endpoint = AIRCRAFT_DATA @ ''/'' @ registration in
      case makeRequest rt endpoint [] 0 s of
        (Inl e, s1) \<Rightarrow> (Inl e, s1)
      | (Inr response, s1) \<Rightarrow>
          if \<not> truthy response \<or> \<not> truthy (js_get response ''result'')
             \<or> \<not> truthy (js_get (js_get response ''result'') ''response'')
             \<or> \<not> truthy (js_get (js_get (js_get response ''result'') ''response'') ''aircraft'')
          then (Inl (McpError InvalidRequest
                       (''No aircraft data found for registration: '' @ registration)), s1)
          else (Inr (js_get (js_get (js_get response ''result'') ''response'') ''aircraft''), s1))"

text \<open>The argument of \<^verbatim>\<open>getFlightsInZone\<close>: four fields, whatever values they hold.\<close>

record GeoBounds =
  north :: jsval
  south :: jsval
  west :: jsval
  east :: jsval

definition getFlightsInZone ::
  "'n runtime \<Rightarrow> GeoBounds \<Rightarrow> 'n state \<Rightarrow> (js_error + jsval) \<times> 'n state" where
  "getFlightsInZone rt bounds s =
     (let endpoint = ZONES;
          ps = [(''bounds'',
                 JStr (to_string rt (north bounds) @ '','' @ to_string rt (south bounds) @ '',''
                       @ to_string rt (west bounds) @ '','' @ to_string rt (east bounds)))] in
      case makeRequest rt endpoint ps 0 s of
        (Inl e, s1) \<Rightarrow> (Inl e, s1)
      | (Inr response, s1) \<Rightarrow>
          if \<not> truthy response \<or> \<not> truthy (js_get response ''result'')
             \<or> \<not> truthy (js_get (js_get response ''result'') ''response'')
             \<or> \<not> truthy (js_get (js_get (js_get response ''result'') ''response'') ''flights'')
          then (Inr (JArr []), s1)
          else (Inr (js_get (js_get (js_get response ''result'') ''response'') ''flights''), s1))"

section \<open>Tool handlers\<close>

text \<open>
  The handlers are modelled up to the call of the client: the validation of the
  arguments, the default limit, the call, and the \<^verbatim>\<open>catch\<close> that rethrows an
  McpError and wraps anything else. The arguments are an object. \<open>Inr v\<close> is the value
  the client returned, which the handler then formats for presentation; the formatting
  issues no request and is left out.
\<close>

definition rethrow :: "string \<Rightarrow> js_error \<Rightarrow> js_error" where
  "rethrow prefix e =
     (case e of
        McpError c m \<Rightarrow> McpError c m
      | OtherError m \<Rightarrow> McpError InternalError (prefix @ m))"

definition searchFlightsTool ::
  "'n runtime \<Rightarrow> (string \<times> jsval) list \<Rightarrow> 'n state \<Rightarrow> (js_error + jsval) \<times> 'n state" where
  "searchFlightsTool rt args s =
     (if \<not> truthy (js_get (JObj args) ''airline_iata'')
         \<and> \<not> truthy (js_get (JObj args) ''airline_icao'')
         \<and> \<not> truthy (js_get (JObj args) ''flight_number'')
         \<and> \<not> truthy (js_get (JObj args) ''flight_iata'')
         \<and> \<not> truthy (js_get (JObj args) ''flight_icao'')
         \<and> \<not> truthy (js_get (JObj args) ''registration'')
         \<and> \<not> truthy (js_get (JObj args) ''bounds'')
      then (Inl (McpError InvalidParams ''At least one search parameter must be provided.''), s)
      else if truthy (js_get (JObj args) ''bounds'')
              \<and> js_lt (js_get (js_get (JObj args) ''bounds'') ''north'')
                       (js_get (js_get (JObj args) ''bounds'') ''south'')
      then (Inl (McpError InvalidParams
                   ''Northern latitude must be greater than or equal to southern latitude.''), s)
      else if truthy (js_get (JObj args) ''bounds'')
              \<and> js_lt (js_get (js_get (JObj args) ''bounds'') ''east'')
                       (js_get (js_get (JObj args) ''bounds'') ''west'')
      then (Inl (McpError InvalidParams
                   ''Eastern longitude must be greater than or equal to western longitude.''), s)
      else
        let limit = (if truthy (js_get (JObj args) ''limit'') then js_get (JObj args) ''limit''
                     else JNum (Fin 10));
            searchParams = AList.update ''limit'' limit args
        in case searchFlights rt searchParams s of
             (Inl e, s1) \<Rightarrow> (Inl (rethrow ''Error searching for flights: '' e), s1)
           | (Inr flights, s1) \<Rightarrow> (Inr flights, s1))"

definition searchAirportsTool ::
  "'n runtime \<Rightarrow> (string \<times> jsval) list \<Rightarrow> 'n state \<Rightarrow> (js_error + jsval) \<times> 'n state" where
  "searchAirportsTool rt args s =
     (if \<not> truthy (js_get (JObj args) ''name'')
         \<and> \<not> truthy (js_get (JObj args) ''country'')
         \<and> \<not> truthy (js_get (JObj args) ''iata'')
         \<and> \<not> truthy (js_get (JObj args) ''icao'')
      then (Inl (McpError InvalidParams ''At least one search parameter must be provided.''), s)
      else
        let limit = (if truthy (js_get (JObj args) ''limit'') then js_get (JObj args) ''limit''
                     else JNum (Fin 10));
            searchParams = AList.update ''limit'' limit args
        in case searchAirports rt searchParams s of
             (Inl e, s1) \<Rightarrow> (Inl (rethrow ''Error searching for airports: '' e), s1)
           | (Inr airports, s1) \<Rightarrow> (Inr airports, s1))"

definition getFlightsInZoneTool ::
  "'n runtime \<Rightarrow> (string \<times> jsval) list \<Rightarrow> 'n state \<Rightarrow> (js_error + jsval) \<times> 'n state" where
  "getFlightsInZoneTool rt args s =
     (let north = js_get (JObj args) ''north'';
          south = js_get (JObj args) ''south'';
          west = js_get (JObj args) ''west'';
          east = js_get (JObj args) ''east'' in
      if js_lt north south
      then (Inl (McpError InvalidParams
                   ''Northern latitude must be greater than or equal to southern latitude.''), s)
      else if js_lt east west
      then (Inl (McpError InvalidParams
                   ''Eastern longitude must be greater than or equal to western longitude.''), s)
      else if js_gt north (JNum (Fin 90)) \<or> js_lt south (JNum (Fin (- 90)))
      then (Inl (McpError InvalidParams ''Latitude must be between -90 and 90 degrees.''), s)
      else if js_gt east (JNum (Fin 180)) \<or> js_lt west (JNum (Fin (- 180)))
      then (Inl (McpError InvalidParams ''Longitude must be between -180 and 180 degrees.''), s)
      else
        case getFlightsInZone rt \<lparr> north = north, south = south, west = west, east = east \<rparr> s of
          (Inl e, s1) \<Rightarrow> (Inl (rethrow ''Error retrieving flights in zone: '' e), s1)
        | (Inr flights, s1) \<Rightarrow> (Inr flights, s1))"

section \<open>Envelopes\<close>

text \<open>
  The value at a path of keys in a response body, when there is one: every step but the
  last must be an object that has the key.
\<close>

fun lookup_path :: "jsval \<Rightarrow> string list \<Rightarrow> jsval option" where
  "lookup_path v [] = Some v"
| "lookup_path (JObj kvs) (k # ks) =
     (case map_of kvs k of None \<Rightarrow> None | Some v \<Rightarrow> lookup_path v ks)"
| "lookup_path _ (k # ks) = None"

text \<open>
  A body has nothing at a path when it has no value there, or a value that is not truthy
  (null, for one).
\<close>

definition nothing_at :: "jsval \<Rightarrow> string list \<Rightarrow> bool" where
  "nothing_at body path =
     (case lookup_path body path of None \<Rightarrow> True | Some v \<Rightarrow> \<not> truthy v)"

section \<open>Vocabulary for the properties\<close>

text \<open>
  The GET that \<open>makeRequest\<close> issues from a state, and the state after the network has
  answered it.
\<close>

definition the_request :: "'n state \<Rightarrow> string \<Rightarrow> (string \<times> jsval) list \<Rightarrow> request" where
  "the_request s endpoint ps =
     \<lparr> req_instance = axiosInstance (this s), req_endpoint = endpoint, req_params = ps \<rparr>"

definition answered :: "'n state \<Rightarrow> request \<Rightarrow> http_outcome \<Rightarrow> 'n \<Rightarrow> 'n state" where
  "answered s rq out n' = s\<lparr> netst := n', calls := calls s @ [(rq, out)] \<rparr>"

text \<open>The calls recorded in \<open>s'\<close> that were not yet recorded in \<open>s\<close>.\<close>

definition issued :: "'n state \<Rightarrow> 'n state \<Rightarrow> (request \<times> http_outcome) list" where
  "issued s s' = drop (length (calls s)) (calls s')"

text \<open>
  A run of \<open>makeRequest\<close> from \<open>s\<close> at attempt count \<open>retryCount\<close>, ending in \<open>s'\<close> with
  result \<open>r\<close>, seen from the network: the answers \<open>outs\<close> it gave, in order.
\<close>

definition retry_chain ::
  "'n state \<Rightarrow> request \<Rightarrow> nat \<Rightarrow> js_error + jsval \<Rightarrow> 'n state \<Rightarrow> http_outcome list \<Rightarrow> bool" where
  "retry_chain s rq retryCount r s' outs \<longleftrightarrow>
     outs \<noteq> [] \<and> length outs \<le> Suc (maxRetries (this s) - retryCount)
     \<and> (\<forall>out \<in> set (butlast outs). \<exists>d. out = Response 429 d)
     \<and> calls s' = calls s @ map (Pair rq) outs
     \<and> sleeps s' = sleeps s @ map (\<lambda>k. retryDelay (this s) * 2 ^ k)
                                    [retryCount ..< retryCount + (length outs - 1)]
     \<and> this s' = this s
     \<and> (\<forall>v. r = Inr v \<longrightarrow> (\<exists>st. last outs = Response st v \<and> 200 \<le> st \<and> st < 300))"

section \<open>A runtime to evaluate with\<close>

text \<open>
  A network that answers from a script, whatever is asked, and reports no response once
  the script is used up. The conversions print integers in decimal, as JavaScript does;
  a fraction is printed as a quotient and arrays and objects by a fixed text, which is
  not what JavaScript prints.
\<close>

fun show_nat :: "nat \<Rightarrow> string" where
  "show_nat n =
     (if n < 10 then [''0123456789'' ! n]
      else show_nat (n div 10) @ [''0123456789'' ! (n mod 10)])"

declare show_nat.simps [simp del]

definition show_number :: "number \<Rightarrow> string" where
  "show_number x =
     (case x of
        NaN \<Rightarrow> ''NaN''
      | NegInf \<Rightarrow> ''-Infinity''
      | PosInf \<Rightarrow> ''Infinity''
      | Fin q \<Rightarrow>
          (let (a, b) = quotient_of q in
           (if a < 0 then ''-'' else '''') @ show_nat (nat \<bar>a\<bar>)
             @ (if b = 1 then '''' else ''/'' @ show_nat (nat b))))"

definition show_value :: "jsval \<Rightarrow> string" where
  "show_value v =
     (case v of
        JUndefined \<Rightarrow> ''undefined''
      | JNull \<Rightarrow> ''null''
      | JBool b \<Rightarrow> (if b then ''true'' else ''false'')
      | JNum x \<Rightarrow> show_number x
      | JStr s \<Rightarrow> s
      | JArr xs \<Rightarrow> ''[array]''
      | JObj kvs \<Rightarrow> ''[object Object]'')"

definition scripted :: "http_outcome list \<Rightarrow> request \<Rightarrow> http_outcome \<times> http_outcome list" where
  "scripted script rq = (case script of [] \<Rightarrow> (NoResponse, []) | out # rest \<Rightarrow> (out, rest))"

definition example_runtime :: "http_outcome list runtime" where
  "example_runtime =
     \<lparr> http_get = scripted, to_string = show_value, json_stringify = show_value \<rparr>"

text \<open>A freshly constructed client in front of a network with the given script.\<close>

definition start :: "http_outcome list \<Rightarrow> http_outcome list state" where
  "start script =
     \<lparr> this = projr (constructor (Some ''secret'')), netst = script, calls = [], sleeps = [] \<rparr>"

section \<open>One attempt of \<open>makeRequest\<close>\<close>

lemma makeRequest_fulfilled:
  assumes "http_get rt (netst s) (the_request s endpoint ps) = (Response st d, n')"
    and "200 \<le> st" and "st < 300"
  shows "makeRequest rt endpoint ps retryCount s =
           (Inr d, answered s (the_request s endpoint ps) (Response st d) n')"
  using assms
  by (subst makeRequest.simps) (simp add: axios_get_def the_request_def answered_def)

lemma makeRequest_retry:
  assumes "http_get rt (netst s) (the_request s endpoint ps) = (Response 429 d, n')"
    and "retryCount < maxRetries (this s)"
  shows "makeRequest rt endpoint ps retryCount s =
           makeRequest rt endpoint ps (retryCount + 1)
             (setTimeout (retryDelay (this s) * 2 ^ retryCount)
                (answered s (the_request s endpoint ps) (Response 429 d) n'))"
  using assms
  by (subst makeRequest.simps) (simp add: axios_get_def the_request_def answered_def)

lemma makeRequest_exhausted:
  assumes "http_get rt (netst s) (the_request s endpoint ps) = (Response 429 d, n')"
    and "\<not> retryCount < maxRetries (this s)"
  shows "makeRequest rt endpoint ps retryCount s =
           (Inl (McpError InternalError
                  (API_ERROR @ '': '' @ to_string rt (JNum (Fin 429)) @ '' - ''
                     @ json_stringify rt d)),
            answered s (the_request s endpoint ps) (Response 429 d) n')"
  using assms
  by (subst makeRequest.simps) (simp add: axios_get_def the_request_def answered_def)

lemma makeRequest_unauthorized:
  assumes "http_get rt (netst s) (the_request s endpoint ps) = (Response 401 d, n')"
  shows "makeRequest rt endpoint ps retryCount s =
           (Inl (McpError InvalidRequest INVALID_API_KEY),
            answered s (the_request s endpoint ps) (Response 401 d) n')"
  using assms
  by (subst makeRequest.simps) (simp add: axios_get_def the_request_def answered_def)

lemma makeRequest_other_status:
  assumes "http_get rt (netst s) (the_request s endpoint ps) = (Response st d, n')"
    and "\<not> (200 \<le> st \<and> st < 300)" and "st \<noteq> 429" and "st \<noteq> 401"
  shows "makeRequest rt endpoint ps retryCount s =
           (Inl (McpError InternalError
                  (API_ERROR @ '': '' @ to_string rt (JNum (Fin (of_nat st))) @ '' - ''
                     @ json_stringify rt d)),
            answered s (the_request s endpoint ps) (Response st d) n')"
  using assms
  by (subst makeRequest.simps) (simp add: axios_get_def the_request_def answered_def)

lemma makeRequest_no_response:
  assumes "http_get rt (netst s) (the_request s endpoint ps) = (NoResponse, n')"
  shows "makeRequest rt endpoint ps retryCount s =
           (Inl (McpError InternalError NETWORK_ERROR),
            answered s (the_request s endpoint ps) NoResponse n')"
  using assms
  by (subst makeRequest.simps) (simp add: axios_get_def the_request_def answered_def)

lemma makeRequest_throws:
  assumes "http_get rt (netst s) (the_request s endpoint ps) = (Throws e, n')"
  shows "makeRequest rt endpoint ps retryCount s =
           (Inl e, answered s (the_request s endpoint ps) (Throws e) n')"
  using assms
  by (subst makeRequest.simps) (simp add: axios_get_def the_request_def answered_def)


lemma retry_chain_single:
  assumes "\<forall>v. r = Inr v \<longrightarrow> (\<exists>st. out = Response st v \<and> 200 \<le> st \<and> st < 300)"
  shows "retry_chain s rq retryCount r (answered s rq out n') [out]"
  using assms by (simp add: retry_chain_def answered_def)

lemma retry_chain_step:
  assumes "retryCount < maxRetries (this s)"
    and "retry_chain (setTimeout (retryDelay (this s) * 2 ^ retryCount)
                        (answered s rq (Response 429 d) n')) rq (retryCount + 1) r s' outs"
  shows "retry_chain s rq retryCount r s' (Response 429 d # outs)"
proof -
  let ?s2 = "setTimeout (retryDelay (this s) * 2 ^ retryCount) (answered s rq (Response 429 d) n')"
  have t: "this ?s2 = this s" and c: "calls ?s2 = calls s @ [(rq, Response 429 d)]"
    and sl: "sleeps ?s2 = sleeps s @ [retryDelay (this s) * 2 ^ retryCount]"
    by (simp_all add: setTimeout_def answered_def)
  from assms(2) have ne: "outs \<noteq> []"
    and len: "length outs \<le> Suc (maxRetries (this s) - (retryCount + 1))"
    and pre: "\<forall>out \<in> set (butlast outs). \<exists>d. out = Response 429 d"
    and cs: "calls s' = calls ?s2 @ map (Pair rq) outs"
    and ss: "sleeps s' = sleeps ?s2 @ map (\<lambda>k. retryDelay (this s) * 2 ^ k)
                                    [retryCount + 1 ..< retryCount + 1 + (length outs - 1)]"
    and ts: "this s' = this s"
    and res: "\<forall>v. r = Inr v \<longrightarrow> (\<exists>st. last outs = Response st v \<and> 200 \<le> st \<and> st < 300)"
    unfolding retry_chain_def t by simp_all
  from ne have lo: "retryCount + 1 + (length outs - 1) = retryCount + length outs"
    by (cases outs) simp_all
  have up: "[retryCount ..< retryCount + length outs]
              = retryCount # [retryCount + 1 ..< retryCount + length outs]"
    using ne by (simp add: upt_conv_Cons)
  have "sleeps s' = sleeps s @ map (\<lambda>k. retryDelay (this s) * 2 ^ k)
                                  [retryCount ..< retryCount + length outs]"
    unfolding ss sl lo up by simp
  moreover have "length (Response 429 d # outs) \<le> Suc (maxRetries (this s) - retryCount)"
    using len assms(1) by simp
  moreover have "\<forall>out \<in> set (butlast (Response 429 d # outs)). \<exists>d. out = Response 429 d"
    using pre ne by simp
  moreover have "calls s' = calls s @ map (Pair rq) (Response 429 d # outs)"
    unfolding cs c by simp
  ultimately show ?thesis
    unfolding retry_chain_def using ts res ne by simp
qed

lemma makeRequest_chain:
  assumes "makeRequest rt endpoint ps retryCount s = (r, s')"
  shows "\<exists>outs. retry_chain s (the_request s endpoint ps) retryCount r s' outs"
  using assms
proof (induction k \<equiv> "maxRetries (this s) - retryCount" arbitrary: retryCount s rule: less_induct)
  case (less retryCount s)
  let ?rq = "the_request s endpoint ps"
  obtain out n' where h: "http_get rt (netst s) ?rq = (out, n')"
    by (cases "http_get rt (netst s) ?rq")
  show ?case
  proof (cases "(\<exists>d. out = Response 429 d) \<and> retryCount < maxRetries (this s)")
    case True
    then obtain d where o: "out = Response 429 d" and lt: "retryCount < maxRetries (this s)"
      by blast
    let ?s2 = "setTimeout (retryDelay (this s) * 2 ^ retryCount) (answered s ?rq (Response 429 d) n')"
    have t: "this ?s2 = this s" by (simp add: setTimeout_def answered_def)
    have rq: "the_request ?s2 endpoint ps = ?rq"
      by (simp add: the_request_def setTimeout_def answered_def)
    have "makeRequest rt endpoint ps (retryCount + 1) ?s2 = (r, s')"
      using makeRequest_retry [OF h [unfolded o] lt] less.prems by simp
    moreover have "maxRetries (this ?s2) - (retryCount + 1) < maxRetries (this s) - retryCount"
      using lt by (simp add: t)
    ultimately obtain outs where "retry_chain ?s2 ?rq (retryCount + 1) r s' outs"
      using less.hyps [of ?s2 "retryCount + 1"] rq by auto
    then show ?thesis
      using retry_chain_step [OF lt] by blast
  next
    case False
    have "s' = answered s ?rq out n'
          \<and> (\<forall>v. r = Inr v \<longrightarrow> (\<exists>st. out = Response st v \<and> 200 \<le> st \<and> st < 300))"
    proof (cases out)
      case (Response st d)
      consider "200 \<le> st \<and> st < 300" | "st = 429" | "st = 401"
        | "\<not> (200 \<le> st \<and> st < 300)" "st \<noteq> 429" "st \<noteq> 401" by blast
      then show ?thesis
      proof cases
        case 1
        then show ?thesis
          using makeRequest_fulfilled [OF h [unfolded Response]] less.prems Response by auto
      next
        case 2
        with False Response have "\<not> retryCount < maxRetries (this s)" by simp
        then show ?thesis
          using makeRequest_exhausted [OF h [unfolded Response 2]] less.prems Response 2 by auto
      next
        case 3
        then show ?thesis
          using makeRequest_unauthorized [OF h [unfolded Response 3]] less.prems Response by auto
      next
        case 4
        then show ?thesis
          using makeRequest_other_status [OF h [unfolded Response]] less.prems Response by auto
      qed
    next
      case NoResponse
      then show ?thesis
        using makeRequest_no_response [OF h [unfolded NoResponse]] less.prems by auto
    next
      case (Throws e)
      then show ?thesis
        using makeRequest_throws [OF h [unfolded Throws]] less.prems by auto
    qed
    then show ?thesis
      using retry_chain_single [of r out s ?rq retryCount n'] by blast
  qed
qed


section \<open>Auxiliary facts\<close>

lemma answered_fields:
  "this (answered s rq out n') = this s" "netst (answered s rq out n') = n'"
  "calls (answered s rq out n') = calls s @ [(rq, out)]"
  "sleeps (answered s rq out n') = sleeps s"
  by (simp_all add: answered_def)

lemma constructor_policy:
  assumes "constructor key = Inr c"
  shows "maxRetries c = 3" and "retryDelay c = 1000"
  using assms by (auto simp: constructor_def split: option.splits if_splits)

lemma start_fields:
  "netst (start script) = script" "calls (start script) = []" "sleeps (start script) = []"
  "maxRetries (this (start script)) = 3" "retryDelay (this (start script)) = 1000"
  "constructor (Some ''secret'') = Inr (this (start script))"
  by (simp_all add: start_def constructor_def)

lemma scripted_simps:
  "http_get example_runtime [] rq = (NoResponse, [])"
  "http_get example_runtime (out # rest) rq = (out, rest)"
  by (simp_all add: example_runtime_def scripted_def)

section \<open>The calls a run issues\<close>

lemma retry_chain_issued:
  assumes "retry_chain s rq retryCount r s' outs"
  shows "issued s s' = map (Pair rq) outs"
  using assms by (simp add: retry_chain_def issued_def)

lemma makeRequest_issued:
  assumes "makeRequest rt endpoint ps retryCount s = (r, s')"
  shows "calls s' = calls s @ issued s s'"
    and "issued s s' \<noteq> []"
    and "length (issued s s') \<le> Suc (maxRetries (this s) - retryCount)"
    and "\<forall>c \<in> set (issued s s'). fst c = the_request s endpoint ps"
    and "\<forall>c \<in> set (butlast (issued s s')). \<exists>d. snd c = Response 429 d"
    and "sleeps s' = sleeps s @ map (\<lambda>k. retryDelay (this s) * 2 ^ k)
                                   [retryCount ..< retryCount + (length (issued s s') - 1)]"
    and "this s' = this s"
    and "\<forall>v. r = Inr v \<longrightarrow>
           (\<exists>st. snd (last (issued s s')) = Response st v \<and> 200 \<le> st \<and> st < 300)"
proof -
  let ?rq = "the_request s endpoint ps"
  from makeRequest_chain [OF assms] obtain outs where ch: "retry_chain s ?rq retryCount r s' outs"
    by blast
  note i = retry_chain_issued [OF ch]
  from ch have ne: "outs \<noteq> []" by (simp add: retry_chain_def)
  from ch show "calls s' = calls s @ issued s s'" by (simp add: i retry_chain_def)
  from ne show "issued s s' \<noteq> []" by (simp add: i)
  from ch show "length (issued s s') \<le> Suc (maxRetries (this s) - retryCount)"
    by (simp add: i retry_chain_def)
  show "\<forall>c \<in> set (issued s s'). fst c = ?rq" by (auto simp: i)
  from ch show "\<forall>c \<in> set (butlast (issued s s')). \<exists>d. snd c = Response 429 d"
    by (auto simp: i retry_chain_def map_butlast [symmetric])
  from ch show "sleeps s' = sleeps s @ map (\<lambda>k. retryDelay (this s) * 2 ^ k)
                                   [retryCount ..< retryCount + (length (issued s s') - 1)]"
    by (simp add: i retry_chain_def)
  from ch show "this s' = this s" by (simp add: retry_chain_def)
  from ch ne show "\<forall>v. r = Inr v \<longrightarrow>
           (\<exists>st. snd (last (issued s s')) = Response st v \<and> 200 \<le> st \<and> st < 300)"
    by (auto simp: i retry_chain_def last_map)
qed

text \<open>Every operation leaves the state as its one call of \<open>makeRequest\<close> left it.\<close>

lemma getFlightData_state:
  "snd (getFlightData rt flightId s) = snd (makeRequest rt (FLIGHT_INFO @ ''/'' @ flightId) [] 0 s)"
  by (simp add: getFlightData_def Let_def split: prod.splits sum.splits)

lemma searchFlights_state:
  "snd (searchFlights rt ps s) = snd (makeRequest rt FLIGHT_DATA ps 0 s)"
  by (simp add: searchFlights_def Let_def split: prod.splits sum.splits)

lemma getAirportData_state:
  "snd (getAirportData rt airportCode s)
     = snd (makeRequest rt AIRPORT_DATA
              (if length airportCode = 3 then [(''iata'', JStr airportCode)]
               else [(''icao'', JStr airportCode)]) 0 s)"
  by (simp add: getAirportData_def Let_def split: prod.splits sum.splits)

lemma searchAirports_state:
  "snd (searchAirports rt ps s) = snd (makeRequest rt AIRPORT_DATA ps 0 s)"
  by (simp add: searchAirports_def Let_def split: prod.splits sum.splits)

lemma getAirlineData_state:
  "snd (getAirlineData rt airlineCode s)
     = snd (makeRequest rt AIRLINE_DATA
              (if length airlineCode = 2 then [(''iata'', JStr airlineCode)]
               else [(''icao'', JStr airlineCode)]) 0 s)"
  by (simp add: getAirlineData_def Let_def split: prod.splits sum.splits)

lemma getAircraftData_state:
  "snd (getAircraftData rt registration s)
     = snd (makeRequest rt (AIRCRAFT_DATA @ ''/'' @ registration) [] 0 s)"
  by (simp add: getAircraftData_def Let_def split: prod.splits sum.splits)

lemma getFlightsInZone_state:
  "snd (getFlightsInZone rt bounds s)
     = snd (makeRequest rt ZONES
              [(''bounds'',
                JStr (to_string rt (north bounds) @ '','' @ to_string rt (south bounds) @ '',''
                      @ to_string rt (west bounds) @ '','' @ to_string rt (east bounds)))] 0 s)"
  by (simp add: getFlightsInZone_def Let_def split: prod.splits sum.splits)

section \<open>Runs on the scripted network\<close>

lemma the_request_start:
  "the_request (start (x # script)) endpoint ps = the_request (start []) endpoint ps"
  by (simp add: the_request_def start_def)

lemma makeRequest_example_ok:
  "makeRequest example_runtime endpoint ps retryCount (start (Response 200 v # rest))
     = (Inr v, (start (Response 200 v # rest))
                 \<lparr> netst := rest,
                   calls := [(the_request (start []) endpoint ps, Response 200 v)] \<rparr>)"
  by (subst makeRequest_fulfilled [where st = 200 and d = v and n' = rest])
     (simp_all add: start_fields scripted_simps answered_def the_request_start)

lemma makeRequest_example_retry_ok:
  "makeRequest example_runtime endpoint ps 0 (start (Response 429 d # Response 200 v # rest))
     = (Inr v, (start (Response 429 d # Response 200 v # rest))
                 \<lparr> netst := rest,
                   calls := [(the_request (start []) endpoint ps, Response 429 d),
                             (the_request (start []) endpoint ps, Response 200 v)],
                   sleeps := [1000] \<rparr>)"
proof -
  let ?s = "start (Response 429 d # Response 200 v # rest)"
  let ?rq = "the_request (start []) endpoint ps"
  let ?s1 = "?s\<lparr> netst := Response 200 v # rest, calls := [(?rq, Response 429 d)],
                  sleeps := [1000] \<rparr>"
  have r1: "the_request ?s1 endpoint ps = ?rq"
    by (simp add: the_request_def start_def)
  have "makeRequest example_runtime endpoint ps 0 ?s
          = makeRequest example_runtime endpoint ps (0 + 1) ?s1"
    by (subst makeRequest_retry [where d = d and n' = "Response 200 v # rest"])
       (simp_all add: start_fields scripted_simps setTimeout_def answered_def the_request_start)
  also have "\<dots> = (Inr v, answered ?s1 ?rq (Response 200 v) rest)"
    by (subst makeRequest_fulfilled [where st = 200 and d = v and n' = rest])
       (simp_all add: r1 scripted_simps)
  finally show ?thesis by (simp add: answered_def)
qed

lemma issued_same [simp]: "issued s s = []"
  by (simp add: issued_def)

lemma show_value_examples:
  "show_value (JNum (Fin 10)) = ''10''" "show_value (JNum (Fin 20)) = ''20''"
  "show_value (JNum (Fin (- 5))) = ''-5''" "show_value (JNum (Fin 5)) = ''5''"
  by (simp_all add: show_value_def show_number_def show_nat.simps)

section \<open>The state after a tool handler\<close>

lemma rejected_or:
  "snd x = s \<or> snd x = t \<Longrightarrow> snd (if c then (a, s) else x) = s \<or> snd (if c then (a, s) else x) = t"
  by simp

lemma rethrown_state:
  "snd (case p of (Inl e, s1) \<Rightarrow> (Inl (f e), s1) | (Inr v, s1) \<Rightarrow> (Inr v, s1)) = snd p"
  by (simp split: prod.splits sum.splits)

lemma searchFlightsTool_state:
  "snd (searchFlightsTool rt args s) = s
   \<or> snd (searchFlightsTool rt args s)
       = snd (makeRequest rt FLIGHT_DATA
                (AList.update ''limit''
                   (if truthy (js_get (JObj args) ''limit'') then js_get (JObj args) ''limit''
                    else JNum (Fin 10)) args) 0 s)"
  unfolding searchFlightsTool_def Let_def
  apply (rule rejected_or)+
  apply (simp only: rethrown_state searchFlights_state simp_thms)
  done

lemma searchAirportsTool_state:
  "snd (searchAirportsTool rt args s) = s
   \<or> snd (searchAirportsTool rt args s)
       = snd (makeRequest rt AIRPORT_DATA
                (AList.update ''limit''
                   (if truthy (js_get (JObj args) ''limit'') then js_get (JObj args) ''limit''
                    else JNum (Fin 10)) args) 0 s)"
  unfolding searchAirportsTool_def Let_def
  apply (rule rejected_or)+
  apply (simp only: rethrown_state searchAirports_state simp_thms)
  done

lemma issued_limit:
  assumes "s' = s \<or> s' = snd (makeRequest rt endpoint (AList.update ''limit'' l args) 0 s)"
    and "c \<in> set (issued s s')"
  shows "js_get (JObj (req_params (fst c))) ''limit'' = l"
proof -
  let ?ps = "AList.update ''limit'' l args"
  from assms(2) have "s' \<noteq> s"
    by auto
  with assms(1) have s': "s' = snd (makeRequest rt endpoint ?ps 0 s)"
    by blast
  have "makeRequest rt endpoint ?ps 0 s = (fst (makeRequest rt endpoint ?ps 0 s), s')"
    by (simp add: s')
  from makeRequest_issued(4) [OF this] assms(2) have "fst c = the_request s endpoint ?ps"
    by blast
  then show ?thesis
    by (simp add: the_request_def update_conv')
qed

section \<open>Missing envelope paths\<close>

lemma lookup_path_missing:
  "lookup_path v (k # ks) = None \<Longrightarrow> \<not> truthy (js_get v k) \<or> lookup_path (js_get v k) ks = None"
  by (cases v) (auto split: option.splits)

lemma missing_one:
  assumes "lookup_path v [k] = None"
  shows "\<not> truthy (js_get v k)"
  using lookup_path_missing [OF assms] by simp

lemma missing_three:
  assumes "lookup_path v [a, b, c] = None"
  shows "\<not> truthy (js_get v a) \<or> \<not> truthy (js_get (js_get v a) b)
         \<or> \<not> truthy (js_get (js_get (js_get v a) b) c)"
proof -
  have "\<not> truthy (js_get v a) \<or> lookup_path (js_get v a) [b, c] = None"
    by (rule lookup_path_missing [OF assms])
  moreover have "\<not> truthy (js_get (js_get v a) b)
                 \<or> lookup_path (js_get (js_get v a) b) [c] = None"
    if "lookup_path (js_get v a) [b, c] = None"
    by (rule lookup_path_missing [OF that])
  moreover have "\<not> truthy (js_get (js_get (js_get v a) b) c)"
    if "lookup_path (js_get (js_get v a) b) [c] = None"
    by (rule missing_one [OF that])
  ultimately show ?thesis by blast
qed

lemma nothing_at_step:
  "nothing_at v (k # ks) \<Longrightarrow> \<not> truthy (js_get v k) \<or> nothing_at (js_get v k) ks"
  by (cases v) (auto simp: nothing_at_def split: option.splits)

lemma nothing_at_end:
  "nothing_at v [] \<Longrightarrow> \<not> truthy v"
  by (simp add: nothing_at_def)

lemma nothing_one:
  assumes "nothing_at v [k]"
  shows "\<not> truthy (js_get v k)"
  using nothing_at_step [OF assms] nothing_at_end by blast

lemma nothing_three:
  assumes "nothing_at v [a, b, c]"
  shows "\<not> truthy (js_get v a) \<or> \<not> truthy (js_get (js_get v a) b)
         \<or> \<not> truthy (js_get (js_get (js_get v a) b) c)"
proof -
  have "\<not> truthy (js_get v a) \<or> nothing_at (js_get v a) [b, c]"
    by (rule nothing_at_step [OF assms])
  moreover have "\<not> truthy (js_get (js_get v a) b)
                 \<or> nothing_at (js_get (js_get v a) b) [c]"
    if "nothing_at (js_get v a) [b, c]"
    by (rule nothing_at_step [OF that])
  moreover have "\<not> truthy (js_get (js_get (js_get v a) b) c)"
    if "nothing_at (js_get (js_get v a) b) [c]"
    by (rule nothing_one [OF that])
  ultimately show ?thesis by blast
qed

lemma missing_is_nothing:
  "lookup_path v path = None \<Longrightarrow> nothing_at v path"
  by (simp add: nothing_at_def)

lemma fst_result:
  "fst p = Inr v \<Longrightarrow> p = (Inr v, snd p)"
  by (cases p) simp

lemma makeRequest_this:
  "this (snd (makeRequest rt endpoint ps retryCount s)) = this s"
  by (rule makeRequest_issued(7) [of rt endpoint ps retryCount s
             "fst (makeRequest rt endpoint ps retryCount s)"]) simp

section \<open>Rate limiting and retry\<close>

text \<open>
  C4. When the first three answers are 429 and the fourth is a 200, the client built by
  the constructor returns the body of the 200. It has issued the same GET four times and
  slept exactly three times, for 1000, 2000 and 4000 milliseconds, which is
  \<open>retryDelay * 2 ^ retryCount\<close> at the attempt counts 0, 1 and 2.
\<close>

theorem three_429_then_200:
  assumes c: "constructor key = Inr (this s)"
    and a0: "http_get rt (netst s) (the_request s endpoint ps) = (Response 429 d0, n1)"
    and a1: "http_get rt n1 (the_request s endpoint ps) = (Response 429 d1, n2)"
    and a2: "http_get rt n2 (the_request s endpoint ps) = (Response 429 d2, n3)"
    and a3: "http_get rt n3 (the_request s endpoint ps) = (Response 200 v, n4)"
  shows "makeRequest rt endpoint ps 0 s =
           (Inr v,
            s\<lparr> netst := n4,
               calls := calls s @ [(the_request s endpoint ps, Response 429 d0),
                                   (the_request s endpoint ps, Response 429 d1),
                                   (the_request s endpoint ps, Response 429 d2),
                                   (the_request s endpoint ps, Response 200 v)],
               sleeps := sleeps s @ [1000, 2000, 4000] \<rparr>)
         \<and> [1000, 2000, 4000] = map (\<lambda>retryCount. retryDelay (this s) * 2 ^ retryCount) [0, 1, 2]"
proof -
  let ?rq = "the_request s endpoint ps"
  from c have m: "maxRetries (this s) = 3" and dl: "retryDelay (this s) = 1000"
    by (rule constructor_policy)+
  let ?s1 = "s\<lparr> netst := n1, calls := calls s @ [(?rq, Response 429 d0)],
                 sleeps := sleeps s @ [1000] \<rparr>"
  let ?s2 = "s\<lparr> netst := n2,
                 calls := calls s @ [(?rq, Response 429 d0), (?rq, Response 429 d1)],
                 sleeps := sleeps s @ [1000, 2000] \<rparr>"
  let ?s3 = "s\<lparr> netst := n3,
                 calls := calls s @ [(?rq, Response 429 d0), (?rq, Response 429 d1),
                                     (?rq, Response 429 d2)],
                 sleeps := sleeps s @ [1000, 2000, 4000] \<rparr>"
  have r1: "the_request ?s1 endpoint ps = ?rq" and r2: "the_request ?s2 endpoint ps = ?rq"
    and r3: "the_request ?s3 endpoint ps = ?rq"
    by (simp_all add: the_request_def)
  have "makeRequest rt endpoint ps 0 s = makeRequest rt endpoint ps (0 + 1) ?s1"
    by (subst makeRequest_retry [OF a0]) (simp_all add: m dl setTimeout_def answered_def)
  also have "\<dots> = makeRequest rt endpoint ps (1 + 1) ?s2"
    by (subst makeRequest_retry [where d = d1 and n' = n2])
       (simp_all add: r1 a1 m dl setTimeout_def answered_def numeral_2_eq_2)
  also have "\<dots> = makeRequest rt endpoint ps (2 + 1) ?s3"
    by (subst makeRequest_retry [where d = d2 and n' = n3])
       (simp_all add: r2 a2 m dl setTimeout_def answered_def numeral_3_eq_3)
  also have "\<dots> = (Inr v, answered ?s3 ?rq (Response 200 v) n4)"
    by (subst makeRequest_fulfilled [where st = 200 and d = v and n' = n4])
       (simp_all add: r3 a3)
  finally show ?thesis
    by (simp add: answered_def dl)
qed

text \<open>The scripted network answers 429, 429, 429 and then 200 with a payload.\<close>

theorem three_429_then_200_witness:
  "constructor (Some ''secret'')
     = Inr (this (start [Response 429 JNull, Response 429 JNull, Response 429 JNull,
                         Response 200 (JStr ''payload'')]))
   \<and> fst (makeRequest example_runtime ''/flights'' [] 0
            (start [Response 429 JNull, Response 429 JNull, Response 429 JNull,
                    Response 200 (JStr ''payload'')]))
     = Inr (JStr ''payload'')
   \<and> sleeps (snd (makeRequest example_runtime ''/flights'' [] 0
                    (start [Response 429 JNull, Response 429 JNull, Response 429 JNull,
                            Response 200 (JStr ''payload'')])))
     = [1000, 2000, 4000]
   \<and> length (calls (snd (makeRequest example_runtime ''/flights'' [] 0
                           (start [Response 429 JNull, Response 429 JNull, Response 429 JNull,
                                   Response 200 (JStr ''payload'')]))))
     = 4"
proof -
  let ?s = "start [Response 429 JNull, Response 429 JNull, Response 429 JNull,
                   Response 200 (JStr ''payload'')]"
  let ?rq = "the_request ?s ''/flights'' []"
  have c: "constructor (Some ''secret'') = Inr (this ?s)"
    by (rule start_fields)
  have a0: "http_get example_runtime (netst ?s) ?rq
              = (Response 429 JNull, [Response 429 JNull, Response 429 JNull,
                                      Response 200 (JStr ''payload'')])"
    by (simp add: start_fields scripted_simps)
  have a1: "http_get example_runtime [Response 429 JNull, Response 429 JNull,
                                      Response 200 (JStr ''payload'')] ?rq
              = (Response 429 JNull, [Response 429 JNull, Response 200 (JStr ''payload'')])"
    by (simp add: scripted_simps)
  have a2: "http_get example_runtime [Response 429 JNull, Response 200 (JStr ''payload'')] ?rq
              = (Response 429 JNull, [Response 200 (JStr ''payload'')])"
    by (simp add: scripted_simps)
  have a3: "http_get example_runtime [Response 200 (JStr ''payload'')] ?rq
              = (Response 200 (JStr ''payload''), [])"
    by (simp add: scripted_simps)
  from three_429_then_200 [OF c a0 a1 a2 a3] c show ?thesis
    by (simp add: start_fields)
qed

text \<open>
  C1. A 429 that persists past the last retry: after the fourth consecutive 429 no further
  GET is issued, and the error surfaced is meant to be the rate-limit error. Evaluated on
  a network that answers 429 four times (and would answer 200 the fifth time), the client
  does stop after the fourth GET and three sleeps, but the error it throws is the general
  one for an API error, built from \<open>API_ERROR\<close>, the status and the body.
  \<open>RATE_LIMIT_EXCEEDED\<close> is declared and never thrown.
\<close>

theorem fourth_429_surfaces_generic_api_error:
  "makeRequest example_runtime ''/flights'' [] 0
     (start [Response 429 JNull, Response 429 JNull, Response 429 JNull, Response 429 JNull,
             Response 200 (JStr ''payload'')])
   = (Inl (McpError InternalError ''Flightradar24 API error: 429 - null''),
      (start [Response 429 JNull, Response 429 JNull, Response 429 JNull, Response 429 JNull,
              Response 200 (JStr ''payload'')])
        \<lparr> netst := [Response 200 (JStr ''payload'')],
          calls := replicate 4 (the_request (start []) ''/flights'' [], Response 429 JNull),
          sleeps := [1000, 2000, 4000] \<rparr>)
   \<and> ''Flightradar24 API error: 429 - null'' \<noteq> RATE_LIMIT_EXCEEDED"
proof -
  let ?p = "Response 200 (JStr ''payload'')"
  let ?s = "start [Response 429 JNull, Response 429 JNull, Response 429 JNull,
                   Response 429 JNull, ?p]"
  let ?rq = "the_request ?s ''/flights'' []"
  let ?s1 = "?s\<lparr> netst := [Response 429 JNull, Response 429 JNull, Response 429 JNull, ?p],
                  calls := [(?rq, Response 429 JNull)], sleeps := [1000] \<rparr>"
  let ?s2 = "?s\<lparr> netst := [Response 429 JNull, Response 429 JNull, ?p],
                  calls := [(?rq, Response 429 JNull), (?rq, Response 429 JNull)],
                  sleeps := [1000, 2000] \<rparr>"
  let ?s3 = "?s\<lparr> netst := [Response 429 JNull, ?p],
                  calls := [(?rq, Response 429 JNull), (?rq, Response 429 JNull),
                            (?rq, Response 429 JNull)],
                  sleeps := [1000, 2000, 4000] \<rparr>"
  have r1: "the_request ?s1 ''/flights'' [] = ?rq" and r2: "the_request ?s2 ''/flights'' [] = ?rq"
    and r3: "the_request ?s3 ''/flights'' [] = ?rq"
    by (simp_all add: the_request_def)
  have rq: "the_request (start []) ''/flights'' [] = ?rq"
    by (simp add: the_request_def start_def)
  have printed: "to_string example_runtime (JNum (Fin 429)) = ''429''"
    "json_stringify example_runtime JNull = ''null''"
    by (simp_all add: example_runtime_def show_value_def show_number_def show_nat.simps)
  have "makeRequest example_runtime ''/flights'' [] 0 ?s
          = makeRequest example_runtime ''/flights'' [] (0 + 1) ?s1"
    by (subst makeRequest_retry [where d = JNull and n' = "[Response 429 JNull, Response 429 JNull, Response 429 JNull, ?p]"])
       (simp_all add: start_fields scripted_simps setTimeout_def answered_def)
  also have "\<dots> = makeRequest example_runtime ''/flights'' [] (1 + 1) ?s2"
    by (subst makeRequest_retry [where d = JNull and n' = "[Response 429 JNull, Response 429 JNull, ?p]"])
       (simp_all add: r1 start_fields scripted_simps setTimeout_def answered_def numeral_2_eq_2)
  also have "\<dots> = makeRequest example_runtime ''/flights'' [] (2 + 1) ?s3"
    by (subst makeRequest_retry [where d = JNull and n' = "[Response 429 JNull, ?p]"])
       (simp_all add: r2 start_fields scripted_simps setTimeout_def answered_def numeral_3_eq_3)
  also have "\<dots> = (Inl (McpError InternalError
                         (API_ERROR @ '': '' @ to_string example_runtime (JNum (Fin 429)) @ '' - ''
                            @ json_stringify example_runtime JNull)),
                  answered ?s3 ?rq (Response 429 JNull) [?p])"
    by (subst makeRequest_exhausted [where d = JNull and n' = "[?p]"])
       (simp_all add: r3 start_fields scripted_simps)
  finally show ?thesis
    by (simp add: printed rq answered_def API_ERROR_def RATE_LIMIT_EXCEEDED_def numeral_eq_Suc)
qed
text \<open>
  C9. Every GET that one run of \<open>makeRequest\<close> issues, the first and each retry, has
  the endpoint and the query parameters the run was called with. Every answer before the
  last one was a 429; the sleeps are those of the attempt counts \<open>retryCount\<close>,
  \<open>retryCount + 1\<close>, ... in steps of one; and a payload that is returned is the body of
  the last answer, whose status is from 200 to 299.
\<close>

theorem retries_repeat_the_same_request:
  assumes "makeRequest rt endpoint ps retryCount s = (r, s')"
  shows "calls s' = calls s @ issued s s' \<and> issued s s' \<noteq> []
         \<and> (\<forall>c \<in> set (issued s s').
               req_endpoint (fst c) = endpoint \<and> req_params (fst c) = ps
               \<and> fst c = the_request s endpoint ps)
         \<and> (\<forall>c \<in> set (butlast (issued s s')). \<exists>d. snd c = Response 429 d)
         \<and> sleeps s' = sleeps s @ map (\<lambda>k. retryDelay (this s) * 2 ^ k)
                                      [retryCount ..< retryCount + (length (issued s s') - 1)]
         \<and> (\<forall>v. r = Inr v \<longrightarrow>
               (\<exists>st. snd (last (issued s s')) = Response st v \<and> 200 \<le> st \<and> st < 300))"
  using makeRequest_issued [OF assms] by (simp add: the_request_def)

text \<open>A 429 followed by a 200: two GETs for the same endpoint with the same parameters.\<close>

theorem retries_repeat_the_same_request_witness:
  "makeRequest example_runtime ''/airports'' [(''iata'', JStr ''LHR'')] 0
       (start [Response 429 JNull, Response 200 (JStr ''payload'')])
     = (Inr (JStr ''payload''),
        (start [Response 429 JNull, Response 200 (JStr ''payload'')])
          \<lparr> netst := [],
            calls := [(the_request (start []) ''/airports'' [(''iata'', JStr ''LHR'')],
                       Response 429 JNull),
                      (the_request (start []) ''/airports'' [(''iata'', JStr ''LHR'')],
                       Response 200 (JStr ''payload''))],
            sleeps := [1000] \<rparr>)
   \<and> map (req_endpoint \<circ> fst)
         (issued (start [Response 429 JNull, Response 200 (JStr ''payload'')])
            (snd (makeRequest example_runtime ''/airports'' [(''iata'', JStr ''LHR'')] 0
                    (start [Response 429 JNull, Response 200 (JStr ''payload'')]))))
     = [''/airports'', ''/airports'']
   \<and> map (req_params \<circ> fst)
         (issued (start [Response 429 JNull, Response 200 (JStr ''payload'')])
            (snd (makeRequest example_runtime ''/airports'' [(''iata'', JStr ''LHR'')] 0
                    (start [Response 429 JNull, Response 200 (JStr ''payload'')]))))
     = [[(''iata'', JStr ''LHR'')], [(''iata'', JStr ''LHR'')]]"
proof -
  note e = makeRequest_example_retry_ok
             [of "''/airports''" "[(''iata'', JStr ''LHR'')]" JNull "JStr ''payload''" "[]"]
  from retries_repeat_the_same_request [OF e] e show ?thesis
    by (simp add: issued_def start_fields the_request_def)
qed

section \<open>Authentication failure\<close>

text \<open>
  C6. A 401 answer makes \<open>makeRequest\<close> fail with the invalid-key error at whatever
  attempt count it arrives: that attempt issues one GET, nothing is retried and nothing
  is slept.
\<close>

theorem unauthorized_fails_after_one_call:
  assumes "http_get rt (netst s) (the_request s endpoint ps) = (Response 401 d, n')"
  shows "fst (makeRequest rt endpoint ps retryCount s)
           = Inl (McpError InvalidRequest INVALID_API_KEY)
         \<and> calls (snd (makeRequest rt endpoint ps retryCount s))
           = calls s @ [(the_request s endpoint ps, Response 401 d)]
         \<and> sleeps (snd (makeRequest rt endpoint ps retryCount s)) = sleeps s"
  by (simp add: makeRequest_unauthorized [OF assms] answered_fields)

text \<open>A 401 at attempt count 2, with a 200 waiting behind it that is never asked for.\<close>

theorem unauthorized_fails_after_one_call_witness:
  "http_get example_runtime (netst (start [Response 401 JNull, Response 200 JNull]))
       (the_request (start [Response 401 JNull, Response 200 JNull]) ''/flights'' [])
     = (Response 401 JNull, [Response 200 JNull])
   \<and> fst (makeRequest example_runtime ''/flights'' [] 2
            (start [Response 401 JNull, Response 200 JNull]))
     = Inl (McpError InvalidRequest ''Invalid Flightradar24 API key'')
   \<and> length (calls (snd (makeRequest example_runtime ''/flights'' [] 2
                           (start [Response 401 JNull, Response 200 JNull])))) = 1
   \<and> sleeps (snd (makeRequest example_runtime ''/flights'' [] 2
                    (start [Response 401 JNull, Response 200 JNull]))) = []"
proof -
  let ?s = "start [Response 401 JNull, Response 200 JNull]"
  have h: "http_get example_runtime (netst ?s) (the_request ?s ''/flights'' [])
             = (Response 401 JNull, [Response 200 JNull])"
    by (simp add: example_runtime_def scripted_def start_def)
  have "calls ?s = []" "sleeps ?s = []" by (simp_all add: start_def)
  with h unauthorized_fails_after_one_call [OF h, of 2] show ?thesis
    by (simp add: INVALID_API_KEY_def)
qed

section \<open>Request parameters of the domain operations\<close>

text \<open>
  C5. Every GET of \<open>getAirportData\<close> carries the code under \<open>iata\<close> when the code has
  length 3 and under \<open>icao\<close> for any other length; every GET of \<open>getAirlineData\<close>
  carries it under \<open>iata\<close> when the length is 2 and under \<open>icao\<close> otherwise. Both issue
  at least one GET for every string, whatever its characters.
\<close>

theorem code_length_selects_parameter:
  "issued s (snd (getAirportData rt airportCode s)) \<noteq> []
   \<and> (\<forall>c \<in> set (issued s (snd (getAirportData rt airportCode s))).
         req_endpoint (fst c) = AIRPORT_DATA
         \<and> req_params (fst c) = (if length airportCode = 3 then [(''iata'', JStr airportCode)]
                                  else [(''icao'', JStr airportCode)]))
   \<and> issued s (snd (getAirlineData rt airlineCode s)) \<noteq> []
   \<and> (\<forall>c \<in> set (issued s (snd (getAirlineData rt airlineCode s))).
         req_endpoint (fst c) = AIRLINE_DATA
         \<and> req_params (fst c) = (if length airlineCode = 2 then [(''iata'', JStr airlineCode)]
                                  else [(''icao'', JStr airlineCode)]))"
proof -
  let ?pa = "if length airportCode = 3 then [(''iata'', JStr airportCode)]
             else [(''icao'', JStr airportCode)]"
  let ?pl = "if length airlineCode = 2 then [(''iata'', JStr airlineCode)]
             else [(''icao'', JStr airlineCode)]"
  have a: "makeRequest rt AIRPORT_DATA ?pa 0 s
             = (fst (makeRequest rt AIRPORT_DATA ?pa 0 s), snd (getAirportData rt airportCode s))"
    by (simp add: getAirportData_state)
  have l: "makeRequest rt AIRLINE_DATA ?pl 0 s
             = (fst (makeRequest rt AIRLINE_DATA ?pl 0 s), snd (getAirlineData rt airlineCode s))"
    by (simp add: getAirlineData_state)
  from makeRequest_issued(2,4) [OF a] makeRequest_issued(2,4) [OF l]
  show ?thesis by (simp add: the_request_def)
qed

text \<open>The three-letter airport code goes out as \<open>iata\<close>, the three-letter airline code as \<open>icao\<close>.\<close>

theorem code_length_selects_parameter_witness:
  "map (req_params \<circ> fst)
       (issued (start [Response 200 JNull]) (snd (getAirportData example_runtime ''LHR'' (start [Response 200 JNull]))))
     = [[(''iata'', JStr ''LHR'')]]
   \<and> map (req_params \<circ> fst)
       (issued (start [Response 200 JNull]) (snd (getAirlineData example_runtime ''BAW'' (start [Response 200 JNull]))))
     = [[(''icao'', JStr ''BAW'')]]"
  using code_length_selects_parameter
          [of "start [Response 200 JNull]" example_runtime "''LHR''" "''BAW''"]
  by (simp add: getAirportData_state getAirlineData_state makeRequest_example_ok issued_def
        start_fields the_request_def)

text \<open>
  C7. For every argument, \<open>getFlightsInZone\<close> does what one call of \<open>makeRequest\<close> for
  the zones endpoint does, with the single parameter \<open>bounds\<close> holding the four values
  as strings, joined by commas in the order north, south, west, east. It always issues a
  GET, every GET it issues is that request, and a GET other than the last was answered
  429. The tool handler is where bounds are rejected: when one of its checks fails it
  throws an invalid-parameters error and the state, with its record of calls, is
  unchanged.
\<close>

theorem zone_bounds_forwarded_unvalidated:
  "snd (getFlightsInZone rt bounds s)
     = snd (makeRequest rt ZONES
              [(''bounds'',
                JStr (to_string rt (north bounds) @ '','' @ to_string rt (south bounds) @ '',''
                      @ to_string rt (west bounds) @ '','' @ to_string rt (east bounds)))] 0 s)
   \<and> issued s (snd (getFlightsInZone rt bounds s)) \<noteq> []
   \<and> (\<forall>c \<in> set (issued s (snd (getFlightsInZone rt bounds s))).
         req_endpoint (fst c) = ZONES
         \<and> req_params (fst c)
             = [(''bounds'',
                 JStr (to_string rt (north bounds) @ '','' @ to_string rt (south bounds) @ '',''
                       @ to_string rt (west bounds) @ '','' @ to_string rt (east bounds)))])
   \<and> (\<forall>c \<in> set (butlast (issued s (snd (getFlightsInZone rt bounds s)))).
         \<exists>d. snd c = Response 429 d)
   \<and> (js_lt (js_get (JObj args) ''north'') (js_get (JObj args) ''south'')
        \<or> js_lt (js_get (JObj args) ''east'') (js_get (JObj args) ''west'')
        \<or> js_gt (js_get (JObj args) ''north'') (JNum (Fin 90))
        \<or> js_lt (js_get (JObj args) ''south'') (JNum (Fin (- 90)))
        \<or> js_gt (js_get (JObj args) ''east'') (JNum (Fin 180))
        \<or> js_lt (js_get (JObj args) ''west'') (JNum (Fin (- 180)))
       \<longrightarrow> (\<exists>m. getFlightsInZoneTool rt args s = (Inl (McpError InvalidParams m), s)))"
proof -
  let ?ps = "[(''bounds'',
               JStr (to_string rt (north bounds) @ '','' @ to_string rt (south bounds) @ '',''
                     @ to_string rt (west bounds) @ '','' @ to_string rt (east bounds)))]"
  have z: "makeRequest rt ZONES ?ps 0 s
             = (fst (makeRequest rt ZONES ?ps 0 s), snd (getFlightsInZone rt bounds s))"
    by (simp add: getFlightsInZone_state)
  have tool: "js_lt (js_get (JObj args) ''north'') (js_get (JObj args) ''south'')
        \<or> js_lt (js_get (JObj args) ''east'') (js_get (JObj args) ''west'')
        \<or> js_gt (js_get (JObj args) ''north'') (JNum (Fin 90))
        \<or> js_lt (js_get (JObj args) ''south'') (JNum (Fin (- 90)))
        \<or> js_gt (js_get (JObj args) ''east'') (JNum (Fin 180))
        \<or> js_lt (js_get (JObj args) ''west'') (JNum (Fin (- 180)))
       \<longrightarrow> (\<exists>m. getFlightsInZoneTool rt args s = (Inl (McpError InvalidParams m), s))"
    unfolding getFlightsInZoneTool_def Let_def by auto
  have c1: "snd (getFlightsInZone rt bounds s) = snd (makeRequest rt ZONES ?ps 0 s)"
    by (rule getFlightsInZone_state)
  have c2: "issued s (snd (getFlightsInZone rt bounds s)) \<noteq> []"
    by (rule makeRequest_issued(2) [OF z])
  have c3: "\<forall>c \<in> set (issued s (snd (getFlightsInZone rt bounds s))).
              req_endpoint (fst c) = ZONES \<and> req_params (fst c) = ?ps"
    using makeRequest_issued(4) [OF z] by (simp add: the_request_def)
  have c4: "\<forall>c \<in> set (butlast (issued s (snd (getFlightsInZone rt bounds s)))).
              \<exists>d. snd c = Response 429 d"
    by (rule makeRequest_issued(5) [OF z])
  show ?thesis
    by (intro conjI) (fact c1 c2 c3 c4 tool)+
qed

text \<open>
  North 10 and south 20: the client forwards them in one GET, the handler rejects them.
\<close>

theorem zone_bounds_forwarded_unvalidated_witness:
  "map (req_params \<circ> fst)
     (issued (start [Response 200 JNull])
        (snd (getFlightsInZone example_runtime
                \<lparr> north = JNum (Fin 10), south = JNum (Fin 20),
                  west = JNum (Fin (- 5)), east = JNum (Fin 5) \<rparr>
                (start [Response 200 JNull]))))
     = [[(''bounds'', JStr ''10,20,-5,5'')]]
   \<and> js_lt (js_get (JObj [(''north'', JNum (Fin 10)), (''south'', JNum (Fin 20)),
                          (''west'', JNum (Fin (- 5))), (''east'', JNum (Fin 5))]) ''north'')
           (js_get (JObj [(''north'', JNum (Fin 10)), (''south'', JNum (Fin 20)),
                          (''west'', JNum (Fin (- 5))), (''east'', JNum (Fin 5))]) ''south'')
   \<and> getFlightsInZoneTool example_runtime
        [(''north'', JNum (Fin 10)), (''south'', JNum (Fin 20)),
         (''west'', JNum (Fin (- 5))), (''east'', JNum (Fin 5))]
        (start [Response 200 JNull])
     = (Inl (McpError InvalidParams
              ''Northern latitude must be greater than or equal to southern latitude.''),
        start [Response 200 JNull])"
proof -
  let ?args = "[(''north'', JNum (Fin 10)), (''south'', JNum (Fin 20)),
                (''west'', JNum (Fin (- 5))), (''east'', JNum (Fin 5))]"
  have h: "js_lt (js_get (JObj ?args) ''north'') (js_get (JObj ?args) ''south'')"
    by (simp add: js_lt_def)
  have t: "getFlightsInZoneTool example_runtime ?args (start [Response 200 JNull])
            = (Inl (McpError InvalidParams
                     ''Northern latitude must be greater than or equal to southern latitude.''),
               start [Response 200 JNull])"
    by (simp add: getFlightsInZoneTool_def js_lt_def)
  have ts: "to_string example_runtime = show_value"
    by (simp add: example_runtime_def)
  from zone_bounds_forwarded_unvalidated
         [of example_runtime "\<lparr> north = JNum (Fin 10), south = JNum (Fin 20),
                                 west = JNum (Fin (- 5)), east = JNum (Fin 5) \<rparr>"
             "start [Response 200 JNull]" ?args] h t
  show ?thesis
    by (simp add: makeRequest_example_ok issued_def start_fields the_request_def ts
          show_value_examples)
qed

section \<open>The default limit\<close>

text \<open>
  C10. In every GET that \<open>searchFlightsTool\<close> or \<open>searchAirportsTool\<close> issues, the
  parameter \<open>limit\<close> is the limit of the arguments when that is truthy and 10 when it
  is falsy (missing, 0, NaN, null, ...). So it is always truthy, and never 0.
\<close>

theorem falsy_limit_never_reaches_upstream:
  "(\<forall>c \<in> set (issued s (snd (searchFlightsTool rt args s))).
      js_get (JObj (req_params (fst c))) ''limit''
        = (if truthy (js_get (JObj args) ''limit'') then js_get (JObj args) ''limit''
           else JNum (Fin 10))
      \<and> truthy (js_get (JObj (req_params (fst c))) ''limit'')
      \<and> js_get (JObj (req_params (fst c))) ''limit'' \<noteq> JNum (Fin 0))
   \<and> (\<forall>c \<in> set (issued s (snd (searchAirportsTool rt args s))).
      js_get (JObj (req_params (fst c))) ''limit''
        = (if truthy (js_get (JObj args) ''limit'') then js_get (JObj args) ''limit''
           else JNum (Fin 10))
      \<and> truthy (js_get (JObj (req_params (fst c))) ''limit'')
      \<and> js_get (JObj (req_params (fst c))) ''limit'' \<noteq> JNum (Fin 0))"
proof -
  let ?l = "if truthy (js_get (JObj args) ''limit'') then js_get (JObj args) ''limit''
            else JNum (Fin 10)"
  have t: "truthy ?l" and z: "?l \<noteq> JNum (Fin 0)"
    by auto
  have f: "js_get (JObj (req_params (fst c))) ''limit'' = ?l"
    if "c \<in> set (issued s (snd (searchFlightsTool rt args s)))" for c
    using issued_limit [OF searchFlightsTool_state that] .
  have a: "js_get (JObj (req_params (fst c))) ''limit'' = ?l"
    if "c \<in> set (issued s (snd (searchAirportsTool rt args s)))" for c
    using issued_limit [OF searchAirportsTool_state that] .
  show ?thesis
  proof (intro conjI ballI)
    fix c assume "c \<in> set (issued s (snd (searchFlightsTool rt args s)))"
    from f [OF this]
    show "js_get (JObj (req_params (fst c))) ''limit'' = ?l"
      and "truthy (js_get (JObj (req_params (fst c))) ''limit'')"
      and "js_get (JObj (req_params (fst c))) ''limit'' \<noteq> JNum (Fin 0)"
      using t z by (simp_all only: simp_thms)
  next
    fix c assume "c \<in> set (issued s (snd (searchAirportsTool rt args s)))"
    from a [OF this]
    show "js_get (JObj (req_params (fst c))) ''limit'' = ?l"
      and "truthy (js_get (JObj (req_params (fst c))) ''limit'')"
      and "js_get (JObj (req_params (fst c))) ''limit'' \<noteq> JNum (Fin 0)"
      using t z by (simp_all only: simp_thms)
  qed
qed

text \<open>A limit of 0 in the arguments of either handler goes out as 10.\<close>

theorem falsy_limit_never_reaches_upstream_witness:
  "map (req_params \<circ> fst)
     (issued (start [Response 200 JNull])
        (snd (searchFlightsTool example_runtime
                [(''flight_iata'', JStr ''BA123''), (''limit'', JNum (Fin 0))]
                (start [Response 200 JNull]))))
     = [[(''flight_iata'', JStr ''BA123''), (''limit'', JNum (Fin 10))]]
   \<and> map (req_params \<circ> fst)
     (issued (start [Response 200 JNull])
        (snd (searchAirportsTool example_runtime
                [(''limit'', JNum (Fin 0)), (''country'', JStr ''GB'')]
                (start [Response 200 JNull]))))
     = [[(''limit'', JNum (Fin 10)), (''country'', JStr ''GB'')]]"
proof -
  let ?s = "start [Response 200 JNull]"
  let ?fa = "[(''flight_iata'', JStr ''BA123''), (''limit'', JNum (Fin 0))]"
  let ?aa = "[(''limit'', JNum (Fin 0)), (''country'', JStr ''GB'')]"
  have f: "snd (searchFlightsTool example_runtime ?fa ?s)
             = ?s\<lparr> netst := [],
                    calls := [(the_request (start []) FLIGHT_DATA
                                 [(''flight_iata'', JStr ''BA123''), (''limit'', JNum (Fin 10))],
                               Response 200 JNull)] \<rparr>"
    by (simp add: searchFlightsTool_def searchFlights_def makeRequest_example_ok)
  have a: "snd (searchAirportsTool example_runtime ?aa ?s)
             = ?s\<lparr> netst := [],
                    calls := [(the_request (start []) AIRPORT_DATA
                                 [(''limit'', JNum (Fin 10)), (''country'', JStr ''GB'')],
                               Response 200 JNull)] \<rparr>"
    by (simp add: searchAirportsTool_def searchAirports_def makeRequest_example_ok)
  from falsy_limit_never_reaches_upstream [of ?s example_runtime ?fa]
       falsy_limit_never_reaches_upstream [of ?s example_runtime ?aa]
  show ?thesis
    by (simp add: f a issued_def start_fields the_request_def)
qed

section \<open>Unwrapping the envelope\<close>

text \<open>
  C2. When the body that \<open>makeRequest\<close> returns has nothing at the path of the operation
  (\<open>result\<close> for the flight, \<open>result.response.airport\<close>, \<open>result.response.airline\<close>
  and \<open>result.response.aircraft\<close> for the others), because a key on the path is absent
  or because the value there is null or otherwise not truthy, each of the four detail
  operations fails with the invalid-request error that says no data was found; it does
  not return a record. A path that cannot be followed is one case of this.
\<close>

theorem missing_entity_is_not_found:
  "(fst (makeRequest rt (FLIGHT_INFO @ ''/'' @ flightId) [] 0 s) = Inr flightResponse
      \<and> nothing_at flightResponse [''result'']
    \<longrightarrow> fst (getFlightData rt flightId s)
          = Inl (McpError InvalidRequest (''No flight data found for flight ID: '' @ flightId)))
   \<and> (fst (makeRequest rt AIRPORT_DATA
              (if length airportCode = 3 then [(''iata'', JStr airportCode)]
               else [(''icao'', JStr airportCode)]) 0 s) = Inr airportResponse
      \<and> nothing_at airportResponse [''result'', ''response'', ''airport'']
    \<longrightarrow> fst (getAirportData rt airportCode s)
          = Inl (McpError InvalidRequest
                   (''No airport data found for airport code: '' @ airportCode)))
   \<and> (fst (makeRequest rt AIRLINE_DATA
              (if length airlineCode = 2 then [(''iata'', JStr airlineCode)]
               else [(''icao'', JStr airlineCode)]) 0 s) = Inr airlineResponse
      \<and> nothing_at airlineResponse [''result'', ''response'', ''airline'']
    \<longrightarrow> fst (getAirlineData rt airlineCode s)
          = Inl (McpError InvalidRequest
                   (''No airline data found for airline code: '' @ airlineCode)))
   \<and> (fst (makeRequest rt (AIRCRAFT_DATA @ ''/'' @ registration) [] 0 s) = Inr aircraftResponse
      \<and> nothing_at aircraftResponse [''result'', ''response'', ''aircraft'']
    \<longrightarrow> fst (getAircraftData rt registration s)
          = Inl (McpError InvalidRequest
                   (''No aircraft data found for registration: '' @ registration)))
   \<and> (\<forall>body path. lookup_path body path = None \<longrightarrow> nothing_at body path)"
proof (intro conjI impI allI; (elim conjE)?)
  assume r: "fst (makeRequest rt (FLIGHT_INFO @ ''/'' @ flightId) [] 0 s) = Inr flightResponse"
    and m: "nothing_at flightResponse [''result'']"
  show "fst (getFlightData rt flightId s)
          = Inl (McpError InvalidRequest (''No flight data found for flight ID: '' @ flightId))"
    unfolding getFlightData_def Let_def
    by (subst fst_result [OF r]) (simp add: nothing_one [OF m])
next
  let ?ps = "if length airportCode = 3 then [(''iata'', JStr airportCode)]
             else [(''icao'', JStr airportCode)]"
  assume r: "fst (makeRequest rt AIRPORT_DATA ?ps 0 s) = Inr airportResponse"
    and m: "nothing_at airportResponse [''result'', ''response'', ''airport'']"
  show "fst (getAirportData rt airportCode s)
          = Inl (McpError InvalidRequest
                   (''No airport data found for airport code: '' @ airportCode))"
    unfolding getAirportData_def Let_def
    using nothing_three [OF m] by (subst fst_result [OF r]) auto
next
  let ?ps = "if length airlineCode = 2 then [(''iata'', JStr airlineCode)]
             else [(''icao'', JStr airlineCode)]"
  assume r: "fst (makeRequest rt AIRLINE_DATA ?ps 0 s) = Inr airlineResponse"
    and m: "nothing_at airlineResponse [''result'', ''response'', ''airline'']"
  show "fst (getAirlineData rt airlineCode s)
          = Inl (McpError InvalidRequest
                   (''No airline data found for airline code: '' @ airlineCode))"
    unfolding getAirlineData_def Let_def
    using nothing_three [OF m] by (subst fst_result [OF r]) auto
next
  assume r: "fst (makeRequest rt (AIRCRAFT_DATA @ ''/'' @ registration) [] 0 s)
               = Inr aircraftResponse"
    and m: "nothing_at aircraftResponse [''result'', ''response'', ''aircraft'']"
  show "fst (getAircraftData rt registration s)
          = Inl (McpError InvalidRequest
                   (''No aircraft data found for registration: '' @ registration))"
    unfolding getAircraftData_def Let_def
    using nothing_three [OF m] by (subst fst_result [OF r]) auto
next
  fix body :: jsval and path
  assume "lookup_path body path = None"
  then show "nothing_at body path"
    by (rule missing_is_nothing)
qed

text \<open>
  A null \<open>result\<close> for the flight, a null \<open>airport\<close> for the airport, a body without
  \<open>result\<close> for the airline, and a \<open>result.response\<close> that is an empty object for the
  aircraft.
\<close>

theorem missing_entity_is_not_found_witness:
  "nothing_at (JObj [(''result'', JNull)]) [''result'']
   \<and> fst (getFlightData example_runtime ''BA123''
            (start [Response 200 (JObj [(''result'', JNull)])]))
     = Inl (McpError InvalidRequest ''No flight data found for flight ID: BA123'')
   \<and> nothing_at (JObj [(''result'', JObj [(''response'', JObj [(''airport'', JNull)])])])
        [''result'', ''response'', ''airport'']
   \<and> fst (getAirportData example_runtime ''LHR''
            (start [Response 200
                      (JObj [(''result'', JObj [(''response'', JObj [(''airport'', JNull)])])])]))
     = Inl (McpError InvalidRequest ''No airport data found for airport code: LHR'')
   \<and> nothing_at (JObj []) [''result'', ''response'', ''airline'']
   \<and> fst (getAirlineData example_runtime ''BA'' (start [Response 200 (JObj [])]))
     = Inl (McpError InvalidRequest ''No airline data found for airline code: BA'')
   \<and> nothing_at (JObj [(''result'', JObj [(''response'', JObj [])])])
        [''result'', ''response'', ''aircraft'']
   \<and> fst (getAircraftData example_runtime ''G-EUPT''
            (start [Response 200 (JObj [(''result'', JObj [(''response'', JObj [])])])]))
     = Inl (McpError InvalidRequest ''No aircraft data found for registration: G-EUPT'')"
proof -
  let ?f = "JObj [(''result'', JNull)]"
  let ?a = "JObj [(''result'', JObj [(''response'', JObj [(''airport'', JNull)])])]"
  let ?l = "JObj []"
  let ?c = "JObj [(''result'', JObj [(''response'', JObj [])])]"
  have m: "nothing_at ?f [''result'']"
    "nothing_at ?a [''result'', ''response'', ''airport'']"
    "nothing_at ?l [''result'', ''response'', ''airline'']"
    "nothing_at ?c [''result'', ''response'', ''aircraft'']"
    by (simp_all add: nothing_at_def)
  have r: "fst (makeRequest example_runtime endpoint ps 0 (start [Response 200 v])) = Inr v"
    for endpoint ps v
    by (simp add: makeRequest_example_ok)
  from missing_entity_is_not_found
         [where rt = example_runtime and s = "start [Response 200 ?f]"
            and flightId = "''BA123''" and flightResponse = ?f]
       missing_entity_is_not_found
         [where rt = example_runtime and s = "start [Response 200 ?a]"
            and airportCode = "''LHR''" and airportResponse = ?a]
       missing_entity_is_not_found
         [where rt = example_runtime and s = "start [Response 200 ?l]"
            and airlineCode = "''BA''" and airlineResponse = ?l]
       missing_entity_is_not_found
         [where rt = example_runtime and s = "start [Response 200 ?c]"
            and registration = "''G-EUPT''" and aircraftResponse = ?c]
  show ?thesis
    by (simp add: m r)
qed

text \<open>
  C3. When the body that \<open>makeRequest\<close> returns has no value at
  \<open>result.response.flights\<close> (flight search and zone query) or at
  \<open>result.response.airports\<close> (airport search), the operation succeeds with the empty
  array.
\<close>

theorem missing_list_is_empty:
  "(fst (makeRequest rt FLIGHT_DATA flightParams 0 s) = Inr flightsResponse
      \<and> lookup_path flightsResponse [''result'', ''response'', ''flights''] = None
    \<longrightarrow> fst (searchFlights rt flightParams s) = Inr (JArr []))
   \<and> (fst (makeRequest rt AIRPORT_DATA airportParams 0 s) = Inr airportsResponse
      \<and> lookup_path airportsResponse [''result'', ''response'', ''airports''] = None
    \<longrightarrow> fst (searchAirports rt airportParams s) = Inr (JArr []))
   \<and> (fst (makeRequest rt ZONES
              [(''bounds'',
                JStr (to_string rt (north bounds) @ '','' @ to_string rt (south bounds) @ '',''
                      @ to_string rt (west bounds) @ '','' @ to_string rt (east bounds)))] 0 s)
        = Inr zoneResponse
      \<and> lookup_path zoneResponse [''result'', ''response'', ''flights''] = None
    \<longrightarrow> fst (getFlightsInZone rt bounds s) = Inr (JArr []))"
proof (intro conjI impI; elim conjE)
  assume r: "fst (makeRequest rt FLIGHT_DATA flightParams 0 s) = Inr flightsResponse"
    and m: "lookup_path flightsResponse [''result'', ''response'', ''flights''] = None"
  show "fst (searchFlights rt flightParams s) = Inr (JArr [])"
    unfolding searchFlights_def Let_def
    using missing_three [OF m] by (subst fst_result [OF r]) auto
next
  assume r: "fst (makeRequest rt AIRPORT_DATA airportParams 0 s) = Inr airportsResponse"
    and m: "lookup_path airportsResponse [''result'', ''response'', ''airports''] = None"
  show "fst (searchAirports rt airportParams s) = Inr (JArr [])"
    unfolding searchAirports_def Let_def
    using missing_three [OF m] by (subst fst_result [OF r]) auto
next
  let ?ps = "[(''bounds'',
               JStr (to_string rt (north bounds) @ '','' @ to_string rt (south bounds) @ '',''
                     @ to_string rt (west bounds) @ '','' @ to_string rt (east bounds)))]"
  assume r: "fst (makeRequest rt ZONES ?ps 0 s) = Inr zoneResponse"
    and m: "lookup_path zoneResponse [''result'', ''response'', ''flights''] = None"
  show "fst (getFlightsInZone rt bounds s) = Inr (JArr [])"
    unfolding getFlightsInZone_def Let_def
    using missing_three [OF m] by (subst fst_result [OF r]) auto
qed

text \<open>The terminal field, \<open>response\<close>, and \<open>result\<close> missing, one for each operation.\<close>

theorem missing_list_is_empty_witness:
  "fst (searchFlights example_runtime [(''flight_iata'', JStr ''BA123''), (''limit'', JNum (Fin 10))]
          (start [Response 200 (JObj [(''result'', JObj [(''response'', JObj [])])])]))
     = Inr (JArr [])
   \<and> fst (searchAirports example_runtime [(''country'', JStr ''GB'')]
            (start [Response 200 (JObj [(''result'', JObj [])])]))
     = Inr (JArr [])
   \<and> fst (getFlightsInZone example_runtime
            \<lparr> north = JNum (Fin 20), south = JNum (Fin 10),
              west = JNum (Fin (- 5)), east = JNum (Fin 5) \<rparr>
            (start [Response 200 (JObj [])]))
     = Inr (JArr [])"
proof -
  have m: "lookup_path (JObj [(''result'', JObj [(''response'', JObj [])])])
             [''result'', ''response'', ''flights''] = None"
    "lookup_path (JObj [(''result'', JObj [])]) [''result'', ''response'', ''airports''] = None"
    "lookup_path (JObj []) [''result'', ''response'', ''flights''] = None"
    by simp_all
  have r: "fst (makeRequest example_runtime endpoint ps 0 (start [Response 200 v])) = Inr v"
    for endpoint ps v
    by (simp add: makeRequest_example_ok)
  from missing_list_is_empty
         [where rt = example_runtime
            and s = "start [Response 200 (JObj [(''result'', JObj [(''response'', JObj [])])])]"
            and flightParams = "[(''flight_iata'', JStr ''BA123''), (''limit'', JNum (Fin 10))]"
            and flightsResponse = "JObj [(''result'', JObj [(''response'', JObj [])])]"]
       missing_list_is_empty
         [where rt = example_runtime and s = "start [Response 200 (JObj [(''result'', JObj [])])]"
            and airportParams = "[(''country'', JStr ''GB'')]"
            and airportsResponse = "JObj [(''result'', JObj [])]"]
       missing_list_is_empty
         [where rt = example_runtime and s = "start [Response 200 (JObj [])]"
            and bounds = "\<lparr> north = JNum (Fin 20), south = JNum (Fin 10),
                            west = JNum (Fin (- 5)), east = JNum (Fin 5) \<rparr>"
            and zoneResponse = "JObj []"]
  show ?thesis
    by (simp add: m r)
qed

section \<open>Construction and the configuration\<close>

text \<open>
  C8. The constructor throws the missing-key error for an undefined and for an empty
  key, so no client exists to issue a request. For every other key it returns a client
  with that key, the base address, the timeout of 10000 ms and the retry policy (1000 ms,
  3 retries). No operation changes the client object: after \<open>makeRequest\<close> and after
  each of the seven operations \<open>this\<close> is what it was before.
\<close>

theorem credential_required_and_configuration_fixed:
  "constructor None = Inl (McpError InvalidParams MISSING_API_KEY)
   \<and> constructor (Some []) = Inl (McpError InvalidParams MISSING_API_KEY)
   \<and> (key \<noteq> [] \<longrightarrow>
        (\<exists>c. constructor (Some key) = Inr c \<and> apiKey c = key
             \<and> baseUrl c = ''https://api.flightradar24.com/v1''
             \<and> baseURL (axiosInstance c) = baseUrl c
             \<and> timeout (axiosInstance c) = 10000
             \<and> map_of (headers (axiosInstance c)) ''Authorization'' = Some (''Bearer '' @ key)
             \<and> retryDelay c = 1000 \<and> maxRetries c = 3))
   \<and> this (snd (makeRequest rt endpoint ps retryCount s)) = this s
   \<and> this (snd (getFlightData rt flightId s)) = this s
   \<and> this (snd (searchFlights rt flightParams s)) = this s
   \<and> this (snd (getAirportData rt airportCode s)) = this s
   \<and> this (snd (searchAirports rt airportParams s)) = this s
   \<and> this (snd (getAirlineData rt airlineCode s)) = this s
   \<and> this (snd (getAircraftData rt registration s)) = this s
   \<and> this (snd (getFlightsInZone rt bounds s)) = this s"
proof -
  have "key \<noteq> [] \<longrightarrow>
        (\<exists>c. constructor (Some key) = Inr c \<and> apiKey c = key
             \<and> baseUrl c = ''https://api.flightradar24.com/v1''
             \<and> baseURL (axiosInstance c) = baseUrl c
             \<and> timeout (axiosInstance c) = 10000
             \<and> map_of (headers (axiosInstance c)) ''Authorization'' = Some (''Bearer '' @ key)
             \<and> retryDelay c = 1000 \<and> maxRetries c = 3)"
    by (simp add: constructor_def)
  then show ?thesis
    by (simp add: constructor_def makeRequest_this getFlightData_state searchFlights_state
          getAirportData_state searchAirports_state getAirlineData_state
          getAircraftData_state getFlightsInZone_state)
qed

text \<open>The key \<open>secret\<close>, and a lookup that is retried once after a 429.\<close>

theorem credential_required_and_configuration_fixed_witness:
  "''secret'' \<noteq> []
   \<and> constructor (Some ''secret'') = Inr (this (start [Response 429 JNull, Response 200 JNull]))
   \<and> apiKey (this (start [Response 429 JNull, Response 200 JNull])) = ''secret''
   \<and> this (snd (getAirportData example_runtime ''LHR''
                   (start [Response 429 JNull, Response 200 JNull])))
     = this (start [Response 429 JNull, Response 200 JNull])
   \<and> apiKey (this (snd (getAirportData example_runtime ''LHR''
                   (start [Response 429 JNull, Response 200 JNull])))) = ''secret''"
  using credential_required_and_configuration_fixed
          [where key = "''secret''" and rt = example_runtime and airportCode = "''LHR''"
             and s = "start [Response 429 JNull, Response 200 JNull]"]
  by (simp add: start_def constructor_def)


end
